theory Spec2Isabelle
  imports Complex_Main "HOL-Library.Multiset" "HOL-Library.Char_ord" "HOL-Library.List_Lexorder"
begin

section \<open>Data model (shared/schema.ts)\<close>

text \<open>
  The tables of the PostgreSQL schema. A column without \<open>notNull()\<close> is nullable and is
  modelled as an option (\<open>None\<close> is SQL NULL). Integer columns are modelled as unbounded
  integers and timestamps as integers (milliseconds); \<open>decimal(10, 2)\<close> as a rational.
  The repository also holds a SQLite variant of the schema and of the storage class, with
  the same queries: there \<open>is_active\<close> is the integer 0 or 1, \<open>unit_price\<close> is a
  floating-point number, the search uses \<open>like\<close>, and the storage functions write the
  timestamps themselves.
\<close>

type_synonym timestamp = int

record zone =
  z_id :: int
  z_name :: string
  z_description :: "string option"
  z_capacity :: "int option"
  z_createdAt :: "timestamp option"
  z_updatedAt :: "timestamp option"

record product =
  p_id :: int
  p_productId :: string
  p_name :: string
  p_description :: "string option"
  p_category :: string
  p_zoneId :: "int option"
  p_currentStock :: "int option"
  p_minStock :: "int option"
  p_unitPrice :: "rat option"
  p_isActive :: "bool option"
  p_createdAt :: "timestamp option"
  p_updatedAt :: "timestamp option"

datatype movementType = IN | OUT

record movement =
  m_id :: int
  m_productId :: int
  m_type :: movementType
  m_quantity :: int
  m_previousStock :: int
  m_newStock :: int
  m_reason :: "string option"
  m_userId :: "string option"
  m_createdAt :: "timestamp option"

text \<open>
  The database: the three tables in insertion order, and the last value handed out by
  the serial sequence of \<open>movements.id\<close>.
\<close>

record db =
  zones :: "zone list"
  products :: "product list"
  movements :: "movement list"
  movements_id_seq :: int

section \<open>Errors and transactions\<close>

text \<open>The storage layer throws plain \<open>Error\<close> objects that carry a message.\<close>

datatype error = Error string

definition ProductNotFound :: error where
  "ProductNotFound = Error ''Product not found''"

definition InsufficientStock :: error where
  "InsufficientStock = Error ''Insufficient stock''"

text \<open>
  \<open>db.transaction(body)\<close>: the writes of a body that throws are rolled back, so the
  database after a failed transaction is the database before it.
\<close>

definition transaction :: "(db \<Rightarrow> error + db) \<Rightarrow> db \<Rightarrow> (error + unit) \<times> db" where
  "transaction body d = (case body d of Inl e \<Rightarrow> (Inl e, d) | Inr d' \<Rightarrow> (Inr (), d'))"

section \<open>Stock operations (server/storage.ts)\<close>

text \<open>JavaScript's \<open>x || 0\<close> on a nullable number, and \<open>s || null\<close> on an optional string.\<close>

definition or_zero :: "int option \<Rightarrow> int" where
  "or_zero x = (case x of None \<Rightarrow> 0 | Some n \<Rightarrow> n)"

definition or_null :: "string option \<Rightarrow> string option" where
  "or_null s = (case s of None \<Rightarrow> None | Some t \<Rightarrow> (if t = [] then None else Some t))"

text \<open>\<open>tx.select().from(products).where(eq(products.id, productId))\<close>, first row.\<close>

definition select_product :: "int \<Rightarrow> db \<Rightarrow> product option" where
  "select_product productId d = find (\<lambda>p. p_id p = productId) (products d)"

text \<open>\<open>tx.update(products).set({currentStock, updatedAt}).where(eq(products.id, productId))\<close>\<close>

definition update_stock_row :: "int \<Rightarrow> int \<Rightarrow> timestamp \<Rightarrow> db \<Rightarrow> db" where
  "update_stock_row productId newStock now d =
     d\<lparr>products :=
         map (\<lambda>p. if p_id p = productId
                   then p\<lparr>p_currentStock := Some newStock, p_updatedAt := Some now\<rparr>
                   else p)
             (products d)\<rparr>"

text \<open>\<open>tx.insert(movements).values({...})\<close>: the row gets the next id of the sequence.\<close>

definition insert_movement ::
  "int \<Rightarrow> movementType \<Rightarrow> int \<Rightarrow> int \<Rightarrow> int \<Rightarrow> string option \<Rightarrow> string option \<Rightarrow> timestamp
     \<Rightarrow> db \<Rightarrow> db" where
  "insert_movement productId type quantity previousStock newStock reason userId now d =
     d\<lparr>movements := movements d @
           [\<lparr>m_id = movements_id_seq d + 1, m_productId = productId, m_type = type,
             m_quantity = quantity, m_previousStock = previousStock, m_newStock = newStock,
             m_reason = reason, m_userId = userId, m_createdAt = Some now\<rparr>],
       movements_id_seq := movements_id_seq d + 1\<rparr>"

text \<open>
  The body of the transaction of \<open>updateStock\<close>. \<open>tU\<close> is the clock read for
  \<open>updatedAt\<close>, \<open>tM\<close> the one for the movement's \<open>createdAt\<close>.
\<close>

definition updateStock_body ::
  "int \<Rightarrow> int \<Rightarrow> movementType \<Rightarrow> string option \<Rightarrow> string option \<Rightarrow> timestamp \<Rightarrow> timestamp
     \<Rightarrow> db \<Rightarrow> error + db" where
  "updateStock_body productId quantity type reason userId tU tM d =
     (case select_product productId d of
        None \<Rightarrow> Inl ProductNotFound
      | Some product \<Rightarrow>
          let previousStock = or_zero (p_currentStock product);
              newStock = (if type = IN then previousStock + quantity
                          else previousStock - quantity)
          in if newStock < 0 then Inl InsufficientStock
             else Inr (insert_movement productId type quantity previousStock newStock
                         (or_null reason) (or_null userId) tM
                         (update_stock_row productId newStock tU d)))"

definition updateStock ::
  "int \<Rightarrow> int \<Rightarrow> movementType \<Rightarrow> string option \<Rightarrow> string option \<Rightarrow> timestamp \<Rightarrow> timestamp
     \<Rightarrow> db \<Rightarrow> (error + unit) \<times> db" where
  "updateStock productId quantity type reason userId tU tM =
     transaction (updateStock_body productId quantity type reason userId tU tM)"

text \<open>\<open>deleteProduct\<close>: \<open>db.update(products).set({isActive: false}).where(eq(products.id, id))\<close>\<close>

definition deleteProduct :: "int \<Rightarrow> db \<Rightarrow> db" where
  "deleteProduct i d =
     d\<lparr>products :=
         map (\<lambda>p. if p_id p = i then p\<lparr>p_isActive := Some False\<rparr> else p) (products d)\<rparr>"

section \<open>The stock update route (server/routes.ts)\<close>

text \<open>
  \<open>POST /api/products/:id/stock\<close> for an authenticated user. The request carries the
  parsed path parameter, the fields of the JSON body (\<open>None\<close> when a field is absent)
  and the id of the user; the quantity, when present, is an integer. Past the check of
  the body the quantity is present, and the type is \<open>IN\<close> or \<open>OUT\<close>.
\<close>

record stockRequest =
  r_id :: int
  r_quantity :: "int option"
  r_type :: "string option"
  r_reason :: "string option"
  r_user :: string

record response =
  status :: nat
  message :: string

text \<open>\<open>!quantity || !type || !["IN", "OUT"].includes(type)\<close>\<close>

definition invalid_stock_update :: "stockRequest \<Rightarrow> bool" where
  "invalid_stock_update r =
     (r_quantity r = None \<or> r_quantity r = Some 0 \<or> r_type r = None \<or> r_type r = Some [] \<or>
      (r_type r \<noteq> Some ''IN'' \<and> r_type r \<noteq> Some ''OUT''))"

definition post_stock :: "stockRequest \<Rightarrow> timestamp \<Rightarrow> timestamp \<Rightarrow> db \<Rightarrow> response \<times> db" where
  "post_stock r tU tM d =
     (if invalid_stock_update r
      then (\<lparr>status = 400, message = ''Invalid stock update data''\<rparr>, d)
      else (case updateStock (r_id r) (or_zero (r_quantity r))
                   (if r_type r = Some ''IN'' then IN else OUT)
                   (r_reason r) (Some (r_user r)) tU tM d of
              (Inl (Error msg), d') \<Rightarrow> (\<lparr>status = 500, message = msg\<rparr>, d')
            | (Inr u, d') \<Rightarrow> (\<lparr>status = 200, message = ''Stock updated successfully''\<rparr>, d')))"

section \<open>SQL conditions\<close>

text \<open>
  A condition over nullable columns has three values; \<open>None\<close> is SQL's unknown. A row
  passes a \<open>where\<close> or a join condition only when the condition is true.
\<close>

definition sql_eq :: "'a option \<Rightarrow> 'a option \<Rightarrow> bool option" where
  "sql_eq a b = (case a of None \<Rightarrow> None
                 | Some x \<Rightarrow> (case b of None \<Rightarrow> None | Some y \<Rightarrow> Some (x = y)))"

definition sql_gt :: "int option \<Rightarrow> int option \<Rightarrow> bool option" where
  "sql_gt a b = (case a of None \<Rightarrow> None
                 | Some x \<Rightarrow> (case b of None \<Rightarrow> None | Some y \<Rightarrow> Some (x > y)))"

definition sql_le :: "int option \<Rightarrow> int option \<Rightarrow> bool option" where
  "sql_le a b = (case a of None \<Rightarrow> None
                 | Some x \<Rightarrow> (case b of None \<Rightarrow> None | Some y \<Rightarrow> Some (x \<le> y)))"

definition sql_and :: "bool option \<Rightarrow> bool option \<Rightarrow> bool option" where
  "sql_and a b =
     (if a = Some False \<or> b = Some False then Some False
      else if a = Some True \<and> b = Some True then Some True
      else None)"

definition sql_or :: "bool option \<Rightarrow> bool option \<Rightarrow> bool option" where
  "sql_or a b =
     (if a = Some True \<or> b = Some True then Some True
      else if a = Some False \<and> b = Some False then Some False
      else None)"

definition sql_and_all :: "bool option list \<Rightarrow> bool option" where
  "sql_and_all cs = foldr sql_and cs (Some True)"

definition sql_where :: "bool option \<Rightarrow> bool" where
  "sql_where c = (c = Some True)"

text \<open>
  \<open>LIKE\<close>: in the pattern \<open>%\<close> stands for any run of characters, \<open>_\<close> for any one
  character, and a backslash takes the next character literally. \<open>ILIKE\<close> compares
  without regard to the case of ASCII letters.
\<close>

fun like_match :: "string \<Rightarrow> string \<Rightarrow> bool" where
  "like_match [] s = (s = [])"
| "like_match (c # p) [] = (c = CHR ''%'' \<and> like_match p [])"
| "like_match (c # p) (x # s) =
     (if c = CHR ''%'' then like_match p (x # s) \<or> like_match (c # p) s
      else if c = CHR ''_'' then like_match p s
      else if c = CHR 0x5C then (case p of [] \<Rightarrow> False | e # p' \<Rightarrow> x = e \<and> like_match p' s)
      else x = c \<and> like_match p s)"

definition lower_char :: "char \<Rightarrow> char" where
  "lower_char c =
     (case map_of (zip ''ABCDEFGHIJKLMNOPQRSTUVWXYZ'' ''abcdefghijklmnopqrstuvwxyz'') c of
        None \<Rightarrow> c
      | Some l \<Rightarrow> l)"

definition ilike :: "string \<Rightarrow> string \<Rightarrow> bool option" where
  "ilike column pattern = Some (like_match (map lower_char pattern) (map lower_char column))"

section \<open>Product listing (server/storage.ts, getProducts)\<close>

datatype stockStatus = st_all | in_stock | low_stock | out_of_stock

record filters =
  f_category :: "string option"
  f_zoneId :: "int option"
  f_status :: "stockStatus option"
  f_search :: "string option"

record productWithZone = product +
  zone :: "zone option"

text \<open>The condition that the \<open>switch (filters.status)\<close> pushes, if any.\<close>

definition status_condition :: "stockStatus \<Rightarrow> product \<Rightarrow> bool option list" where
  "status_condition st p =
     (case st of
        in_stock \<Rightarrow> [sql_gt (p_currentStock p) (p_minStock p)]
      | low_stock \<Rightarrow> [sql_and (sql_le (p_currentStock p) (p_minStock p))
                               (sql_gt (p_currentStock p) (Some 0))]
      | out_of_stock \<Rightarrow> [sql_eq (p_currentStock p) (Some 0)]
      | st_all \<Rightarrow> [])"

text \<open>
  The list \<open>conditions\<close>, for one row. An absent field, an empty string and the zone id 0
  are falsy in JavaScript and push no condition.
\<close>

definition getProducts_conditions :: "filters option \<Rightarrow> product \<Rightarrow> bool option list" where
  "getProducts_conditions fs p =
     [sql_eq (p_isActive p) (Some True)]
     @ (case Option.bind fs f_category of
          None \<Rightarrow> []
        | Some c \<Rightarrow> if c = [] then [] else [sql_eq (Some (p_category p)) (Some c)])
     @ (case Option.bind fs f_zoneId of
          None \<Rightarrow> []
        | Some z \<Rightarrow> if z = 0 then [] else [sql_eq (p_zoneId p) (Some z)])
     @ (case Option.bind fs f_search of
          None \<Rightarrow> []
        | Some s \<Rightarrow> if s = [] then []
                    else [sql_or (ilike (p_name p) (''%'' @ s @ ''%''))
                            (sql_or (ilike (p_productId p) (''%'' @ s @ ''%''))
                                    (ilike (p_category p) (''%'' @ s @ ''%'')))])
     @ (case Option.bind fs f_status of
          None \<Rightarrow> []
        | Some st \<Rightarrow> status_condition st p)"

text \<open>\<open>.from(products).leftJoin(zones, eq(products.zoneId, zones.id))\<close>\<close>

definition products_left_join_zones :: "db \<Rightarrow> (product \<times> zone option) list" where
  "products_left_join_zones d =
     concat (map (\<lambda>p.
        let zs = filter (\<lambda>z. sql_where (sql_eq (p_zoneId p) (Some (z_id z)))) (zones d)
        in if zs = [] then [(p, None)] else map (\<lambda>z. (p, Some z)) zs)
       (products d))"

definition getProducts :: "filters option \<Rightarrow> db \<Rightarrow> productWithZone list" where
  "getProducts fs d =
     map (\<lambda>(p, z). product.extend p \<lparr>zone = z\<rparr>)
       (sort_key (\<lambda>(p, z). p_name p)
          (filter (\<lambda>(p, z). sql_where (sql_and_all (getProducts_conditions fs p)))
             (products_left_join_zones d)))"

section \<open>Dashboard metrics (server/storage.ts, getDashboardMetrics)\<close>

text \<open>
  The total value is computed by the query
  \<open>cast(coalesce(sum(currentStock * unitPrice), 0) as integer)\<close> over the active
  products, in both variants of the storage class; the two databases differ in the
  arithmetic and in the cast.

  PostgreSQL: \<open>unit_price\<close> is \<open>decimal(10, 2)\<close>, the products and the sum are exact.
  \<open>cast(x as integer)\<close> of a numeric value rounds to the nearest integer, a half away
  from zero, and raises "integer out of range" when the result does not fit 32 bits.
\<close>

definition IntegerOutOfRange :: error where
  "IntegerOutOfRange = Error ''integer out of range''"

definition round_half_away :: "rat \<Rightarrow> int" where
  "round_half_away q = (if 0 \<le> q then \<lfloor>q + 1 / 2\<rfloor> else - \<lfloor>- q + 1 / 2\<rfloor>)"

definition cast_integer :: "rat \<Rightarrow> error + int" where
  "cast_integer q =
     (let n = round_half_away q
      in if - 2147483648 \<le> n \<and> n \<le> 2147483647 then Inr n else Inl IntegerOutOfRange)"

text \<open>
  SQLite: \<open>unit_price\<close> is \<open>real\<close>, a floating-point number, represented here by its
  value, a rational (an infinite value by a rational beyond 64 bits, to which the cast
  takes it). The product of an integer and a real and the sum of reals are
  floating-point operations; they are parameters of the model, \<open>fl_mult\<close> and
  \<open>fl_sum\<close>, of which nothing is assumed. \<open>cast(x as integer)\<close> of a real drops the
  fraction and keeps the result within 64 bits; the libsql client then turns the integer
  into a JavaScript number and throws a \<open>RangeError\<close> when it is not a safe integer.
\<close>

definition UnsafeInteger :: error where
  "UnsafeInteger =
     Error ''Received integer which is too large to be safely represented as a JavaScript number''"

definition truncate_toward_zero :: "rat \<Rightarrow> int" where
  "truncate_toward_zero q = (if 0 \<le> q then \<lfloor>q\<rfloor> else - \<lfloor>- q\<rfloor>)"

definition cast_integer_sqlite :: "rat \<Rightarrow> error + int" where
  "cast_integer_sqlite q =
     (let n = max (- 9223372036854775808) (min 9223372036854775807 (truncate_toward_zero q))
      in if - 9007199254740991 \<le> n \<and> n \<le> 9007199254740991 then Inr n else Inl UnsafeInteger)"

text \<open>\<open>sum\<close> skips NULL values and is NULL when nothing is left.\<close>

definition sql_sum :: "rat option list \<Rightarrow> rat option" where
  "sql_sum vs = (case List.map_filter (\<lambda>v. v) vs of [] \<Rightarrow> None | x # xs \<Rightarrow> Some (sum_list (x # xs)))"

definition coalesce :: "'a option \<Rightarrow> 'a \<Rightarrow> 'a" where
  "coalesce v dflt = (case v of None \<Rightarrow> dflt | Some x \<Rightarrow> x)"

definition sql_mult :: "int option \<Rightarrow> rat option \<Rightarrow> rat option" where
  "sql_mult a b = (case a of None \<Rightarrow> None
                   | Some x \<Rightarrow> (case b of None \<Rightarrow> None | Some y \<Rightarrow> Some (of_int x * y)))"

text \<open>The same two operations of SQLite on floating-point values.\<close>

definition sql_fsum :: "(rat list \<Rightarrow> rat) \<Rightarrow> rat option list \<Rightarrow> rat option" where
  "sql_fsum fl_sum vs =
     (case List.map_filter (\<lambda>v. v) vs of [] \<Rightarrow> None | x # xs \<Rightarrow> Some (fl_sum (x # xs)))"

definition sql_fmult :: "(int \<Rightarrow> rat \<Rightarrow> rat) \<Rightarrow> int option \<Rightarrow> rat option \<Rightarrow> rat option" where
  "sql_fmult fl_mult a b =
     (case a of None \<Rightarrow> None
      | Some x \<Rightarrow> (case b of None \<Rightarrow> None | Some y \<Rightarrow> Some (fl_mult x y)))"

record zoneStatusRow =
  zs_id :: int
  zs_name :: string
  zs_description :: "string option"
  zs_capacity :: int
  zs_createdAt :: "timestamp option"
  zs_updatedAt :: "timestamp option"
  zs_itemCount :: int

definition totalItems_query :: "db \<Rightarrow> int" where
  "totalItems_query d =
     int (length (filter (\<lambda>p. sql_where (sql_eq (p_isActive p) (Some True))) (products d)))"

definition lowStockItems_query :: "db \<Rightarrow> int" where
  "lowStockItems_query d =
     int (length (filter (\<lambda>p. sql_where (sql_and_all
            [sql_eq (p_isActive p) (Some True),
             sql_le (p_currentStock p) (p_minStock p),
             sql_gt (p_currentStock p) (Some 0)])) (products d)))"

definition outOfStockItems_query :: "db \<Rightarrow> int" where
  "outOfStockItems_query d =
     int (length (filter (\<lambda>p. sql_where (sql_and_all
            [sql_eq (p_isActive p) (Some True),
             sql_eq (p_currentStock p) (Some 0)])) (products d)))"

definition totalValue_query :: "db \<Rightarrow> error + int" where
  "totalValue_query d =
     cast_integer (coalesce
        (sql_sum (map (\<lambda>p. sql_mult (p_currentStock p) (p_unitPrice p))
           (filter (\<lambda>p. sql_where (sql_eq (p_isActive p) (Some True))) (products d))))
        0)"

definition totalValue_query_sqlite ::
  "(int \<Rightarrow> rat \<Rightarrow> rat) \<Rightarrow> (rat list \<Rightarrow> rat) \<Rightarrow> db \<Rightarrow> error + int" where
  "totalValue_query_sqlite fl_mult fl_sum d =
     cast_integer_sqlite (coalesce
        (sql_fsum fl_sum (map (\<lambda>p. sql_fmult fl_mult (p_currentStock p) (p_unitPrice p))
           (filter (\<lambda>p. sql_where (sql_eq (p_isActive p) (Some True))) (products d))))
        0)"

text \<open>
  \<open>.from(zones).leftJoin(products, and(eq(zones.id, products.zoneId),
  eq(products.isActive, true)))\<close>
\<close>

definition zones_left_join_products :: "db \<Rightarrow> (zone \<times> product option) list" where
  "zones_left_join_products d =
     concat (map (\<lambda>z.
        let ps = filter (\<lambda>p. sql_where (sql_and (sql_eq (Some (z_id z)) (p_zoneId p))
                                                 (sql_eq (p_isActive p) (Some True))))
                   (products d)
        in if ps = [] then [(z, None)] else map (\<lambda>p. (z, Some p)) ps)
       (zones d))"

text \<open>
  \<open>.groupBy(zones.id)\<close>: one output row for each id among the joined rows, with the
  zone's columns and \<open>count(products.id)\<close>, the number of rows of the group whose
  product is not NULL.
\<close>

definition group_row :: "(zone \<times> product option) list \<Rightarrow> int \<Rightarrow> zoneStatusRow list" where
  "group_row rows k =
     (case filter (\<lambda>r. z_id (fst r) = k) rows of
        [] \<Rightarrow> []
      | r # rs \<Rightarrow>
          [\<lparr>zs_id = z_id (fst r), zs_name = z_name (fst r),
            zs_description = z_description (fst r),
            zs_capacity = or_zero (z_capacity (fst r)),
            zs_createdAt = z_createdAt (fst r), zs_updatedAt = z_updatedAt (fst r),
            zs_itemCount = int (length (filter (\<lambda>r. snd r \<noteq> None) (r # rs)))\<rparr>])"

definition zoneStatus_query :: "db \<Rightarrow> zoneStatusRow list" where
  "zoneStatus_query d =
     (let rows = zones_left_join_products d
      in sort_key zs_name (concat (map (group_row rows) (remdups (map (\<lambda>r. z_id (fst r)) rows)))))"

text \<open>
  The result of \<open>getDashboardMetrics\<close> without \<open>recentActivities\<close>, the ten latest
  movements joined with their products and users. The field \<open>totalValue\<close> holds the
  outcome of the total-value query: a number, or the error with which the query, and with
  it the call of \<open>getDashboardMetrics\<close>, fails.
\<close>

record dashboardMetrics =
  totalItems :: int
  lowStockItems :: int
  outOfStockItems :: int
  totalValue :: "error + int"
  zoneStatus :: "zoneStatusRow list"

definition getDashboardMetrics :: "db \<Rightarrow> dashboardMetrics" where
  "getDashboardMetrics d =
     \<lparr>totalItems = totalItems_query d,
      lowStockItems = lowStockItems_query d,
      outOfStockItems = outOfStockItems_query d,
      totalValue = totalValue_query d,
      zoneStatus = zoneStatus_query d\<rparr>"

text \<open>The SQLite variant runs the same queries on its own arithmetic.\<close>

definition getDashboardMetrics_sqlite ::
  "(int \<Rightarrow> rat \<Rightarrow> rat) \<Rightarrow> (rat list \<Rightarrow> rat) \<Rightarrow> db \<Rightarrow> dashboardMetrics" where
  "getDashboardMetrics_sqlite fl_mult fl_sum d =
     \<lparr>totalItems = totalItems_query d,
      lowStockItems = lowStockItems_query d,
      outOfStockItems = outOfStockItems_query d,
      totalValue = totalValue_query_sqlite fl_mult fl_sum d,
      zoneStatus = zoneStatus_query d\<rparr>"

section \<open>Vocabulary of the properties\<close>

text \<open>The stock that \<open>updateStock\<close> computes for a product row.\<close>

definition computed_newStock :: "product \<Rightarrow> int \<Rightarrow> movementType \<Rightarrow> int" where
  "computed_newStock p quantity type =
     (case type of IN \<Rightarrow> or_zero (p_currentStock p) + quantity
                 | OUT \<Rightarrow> or_zero (p_currentStock p) - quantity)"

text \<open>The database after the two writes of a successful \<open>updateStock\<close> on the row \<open>p\<close>.\<close>

definition written ::
  "int \<Rightarrow> int \<Rightarrow> movementType \<Rightarrow> string option \<Rightarrow> string option \<Rightarrow> timestamp \<Rightarrow> timestamp
     \<Rightarrow> product \<Rightarrow> db \<Rightarrow> db" where
  "written productId quantity type reason userId tU tM p d =
     insert_movement productId type quantity (or_zero (p_currentStock p))
       (computed_newStock p quantity type) (or_null reason) (or_null userId) tM
       (update_stock_row productId (computed_newStock p quantity type) tU d)"



text \<open>
  The movement history of a product in insertion order (its latest movement is the last
  one), the stock of a product as \<open>updateStock\<close> reads it, the sum of the IN quantities
  minus the sum of the OUT quantities, and the relation between the snapshots of a row.
\<close>

definition movements_of :: "int \<Rightarrow> db \<Rightarrow> movement list" where
  "movements_of productId d = filter (\<lambda>m. m_productId m = productId) (movements d)"




text \<open>
  The classification in the words of the specification: out of stock when the stock is 0,
  low when it is positive and at most the minimum, in stock otherwise.
\<close>

definition classifyStock :: "int \<Rightarrow> int \<Rightarrow> stockStatus" where
  "classifyStock currentStock minStock =
     (if currentStock = 0 then out_of_stock
      else if 0 < currentStock \<and> currentStock \<le> minStock then low_stock
      else in_stock)"

text \<open>A row passes the condition that getProducts pushes for a status.\<close>

definition matches_status :: "stockStatus \<Rightarrow> product \<Rightarrow> bool" where
  "matches_status st p = sql_where (sql_and_all (status_condition st p))"

text \<open>The filter object that gives a status and nothing else.\<close>

definition status_filter :: "stockStatus \<Rightarrow> filters" where
  "status_filter st = \<lparr>f_category = None, f_zoneId = None, f_status = Some st, f_search = None\<rparr>"

text \<open>
  The sum of currentStock times unitPrice over the products with isActive true, a row
  with a NULL stock or price counting 0.
\<close>

definition active_value_sum :: "db \<Rightarrow> rat" where
  "active_value_sum d =
     sum_list (map (\<lambda>p. coalesce (sql_mult (p_currentStock p) (p_unitPrice p)) 0)
       (filter (\<lambda>p. p_isActive p = Some True) (products d)))"

text \<open>
  The floating-point values currentStock times unitPrice of the products with isActive
  true whose stock and price are not NULL, and their floating-point sum (0 when there is
  none).
\<close>

definition active_float_values :: "(int \<Rightarrow> rat \<Rightarrow> rat) \<Rightarrow> db \<Rightarrow> rat list" where
  "active_float_values fl_mult d =
     concat (map (\<lambda>p. case p_currentStock p of None \<Rightarrow> []
                       | Some c \<Rightarrow> (case p_unitPrice p of None \<Rightarrow> [] | Some u \<Rightarrow> [fl_mult c u]))
       (filter (\<lambda>p. p_isActive p = Some True) (products d)))"

definition active_float_sum :: "(int \<Rightarrow> rat \<Rightarrow> rat) \<Rightarrow> (rat list \<Rightarrow> rat) \<Rightarrow> db \<Rightarrow> rat" where
  "active_float_sum fl_mult fl_sum d =
     (if active_float_values fl_mult d = [] then 0 else fl_sum (active_float_values fl_mult d))"

text \<open>
  Floating-point operations that are exact. They are the operations of SQLite on the
  example data, where every product and every partial sum is a floating-point number: 3
  times 0.25 is 0.75.
\<close>

definition exact_mult :: "int \<Rightarrow> rat \<Rightarrow> rat" where
  "exact_mult c u = of_int c * u"

definition exact_sum :: "rat list \<Rightarrow> rat" where
  "exact_sum vs = sum_list vs"

text \<open>
  The active products that reference a zone, the row of \<open>zoneStatus\<close> expected for a
  zone, and the rows that the left join produces for one zone.
\<close>

definition active_in_zone :: "db \<Rightarrow> zone \<Rightarrow> product list" where
  "active_in_zone d z =
     filter (\<lambda>p. p_isActive p = Some True \<and> p_zoneId p = Some (z_id z)) (products d)"

definition expected_row :: "db \<Rightarrow> zone \<Rightarrow> zoneStatusRow" where
  "expected_row d z =
     \<lparr>zs_id = z_id z, zs_name = z_name z, zs_description = z_description z,
      zs_capacity = or_zero (z_capacity z), zs_createdAt = z_createdAt z,
      zs_updatedAt = z_updatedAt z, zs_itemCount = int (length (active_in_zone d z))\<rparr>"

definition join_block :: "db \<Rightarrow> zone \<Rightarrow> (zone \<times> product option) list" where
  "join_block d z =
     (if active_in_zone d z = [] then [(z, None)] else map (\<lambda>p. (z, Some p)) (active_in_zone d z))"

text \<open>
  A case-insensitive substring test, in the words of the specification, and the search
  texts without a character that \<open>LIKE\<close> treats specially.
\<close>

fun is_infix :: "'a list \<Rightarrow> 'a list \<Rightarrow> bool" where
  "is_infix xs [] = (xs = [])"
| "is_infix xs (y # ys) = (take (length xs) (y # ys) = xs \<or> is_infix xs ys)"

definition contains_ci :: "string \<Rightarrow> string \<Rightarrow> bool" where
  "contains_ci s t = is_infix (map lower_char s) (map lower_char t)"

definition wildcard_free :: "string \<Rightarrow> bool" where
  "wildcard_free s = (CHR ''%'' \<notin> set s \<and> CHR ''_'' \<notin> set s \<and> CHR 0x5C \<notin> set s)"

text \<open>The filter object that gives a search text and nothing else.\<close>

definition search_filter :: "string \<Rightarrow> filters" where
  "search_filter s = \<lparr>f_category = None, f_zoneId = None, f_status = None, f_search = Some s\<rparr>"

text \<open>
  A product matches a filter object in the words of the specification: it is active, its
  category and zone are the given ones, the search text occurs in its name, product id or
  category, and it passes the condition of the given status.
\<close>

definition filter_matches :: "filters \<Rightarrow> product \<Rightarrow> bool" where
  "filter_matches fs p =
     (p_isActive p = Some True \<and>
      (case f_category fs of None \<Rightarrow> True | Some c \<Rightarrow> p_category p = c) \<and>
      (case f_zoneId fs of None \<Rightarrow> True | Some z \<Rightarrow> p_zoneId p = Some z) \<and>
      (case f_search fs of None \<Rightarrow> True
       | Some s \<Rightarrow> contains_ci s (p_name p) \<or> contains_ci s (p_productId p) \<or>
                   contains_ci s (p_category p)) \<and>
      (case f_status fs of None \<Rightarrow> True | Some st \<Rightarrow> matches_status st p))"

text \<open>Example data.\<close>

definition widget :: product where
  "widget = \<lparr>p_id = 1, p_productId = ''W-1'', p_name = ''widget'', p_description = None,
     p_category = ''tools'', p_zoneId = None, p_currentStock = Some 3, p_minStock = Some 10,
     p_unitPrice = Some (1 / 4), p_isActive = Some True, p_createdAt = Some 100,
     p_updatedAt = Some 100\<rparr>"

definition db0 :: db where
  "db0 = \<lparr>zones = [], products = [widget], movements = [], movements_id_seq = 0\<rparr>"

definition db1 :: db where
  "db1 = \<lparr>zones = [],
     products = [widget\<lparr>p_currentStock := Some 8, p_updatedAt := Some 201\<rparr>],
     movements =
       [\<lparr>m_id = 1, m_productId = 1, m_type = IN, m_quantity = 5, m_previousStock = 3,
         m_newStock = 8, m_reason = Some ''restock'', m_userId = Some ''u1'',
         m_createdAt = Some 202\<rparr>],
     movements_id_seq = 1\<rparr>"

definition db2 :: db where
  "db2 = \<lparr>zones = [],
     products = [widget\<lparr>p_currentStock := Some 3, p_updatedAt := Some 301\<rparr>],
     movements =
       [\<lparr>m_id = 1, m_productId = 1, m_type = IN, m_quantity = 5, m_previousStock = 3,
         m_newStock = 8, m_reason = Some ''restock'', m_userId = Some ''u1'',
         m_createdAt = Some 202\<rparr>,
        \<lparr>m_id = 2, m_productId = 1, m_type = OUT, m_quantity = 5, m_previousStock = 8,
         m_newStock = 3, m_reason = Some ''pick'', m_userId = None,
         m_createdAt = Some 302\<rparr>],
     movements_id_seq = 2\<rparr>"

definition gadget :: product where
  "gadget = \<lparr>p_id = 2, p_productId = ''G-2'', p_name = ''gadget'', p_description = None,
     p_category = ''tools'', p_zoneId = Some 1, p_currentStock = Some 10, p_minStock = Some 10,
     p_unitPrice = Some 2, p_isActive = Some True, p_createdAt = Some 100,
     p_updatedAt = Some 100\<rparr>"

definition db5 :: db where
  "db5 = \<lparr>zones = [], products = [widget, gadget\<lparr>p_isActive := Some False\<rparr>], movements = [],
     movements_id_seq = 0\<rparr>"

definition crate :: product where
  "crate = \<lparr>p_id = 4, p_productId = ''C-4'', p_name = ''crate'', p_description = None,
     p_category = ''bulk'', p_zoneId = None, p_currentStock = Some 2000000000,
     p_minStock = Some 0, p_unitPrice = Some 2, p_isActive = Some True,
     p_createdAt = Some 100, p_updatedAt = Some 100\<rparr>"

definition db6 :: db where
  "db6 = \<lparr>zones = [], products = [crate], movements = [], movements_id_seq = 0\<rparr>"


definition req_negative :: stockRequest where
  "req_negative = \<lparr>r_id = 1, r_quantity = Some (- 5), r_type = Some ''OUT'', r_reason = None,
     r_user = ''u1''\<rparr>"

definition req_missing :: stockRequest where
  "req_missing = \<lparr>r_id = 99, r_quantity = Some 5, r_type = Some ''IN'', r_reason = None,
     r_user = ''u1''\<rparr>"

definition req_too_much :: stockRequest where
  "req_too_much = \<lparr>r_id = 1, r_quantity = Some 5, r_type = Some ''OUT'', r_reason = None,
     r_user = ''u1''\<rparr>"

definition zoneA :: zone where
  "zoneA = \<lparr>z_id = 1, z_name = ''Aisle'', z_description = None, z_capacity = Some 50,
     z_createdAt = Some 100, z_updatedAt = Some 100\<rparr>"

definition zoneB :: zone where
  "zoneB = \<lparr>z_id = 2, z_name = ''Bay'', z_description = Some ''cold'', z_capacity = None,
     z_createdAt = Some 100, z_updatedAt = Some 100\<rparr>"

definition gizmo :: product where
  "gizmo = \<lparr>p_id = 3, p_productId = ''Z-3'', p_name = ''gizmo'', p_description = None,
     p_category = ''toys'', p_zoneId = Some 2, p_currentStock = Some 4, p_minStock = Some 1,
     p_unitPrice = None, p_isActive = Some False, p_createdAt = Some 100,
     p_updatedAt = Some 100\<rparr>"

definition db4 :: db where
  "db4 = \<lparr>zones = [zoneB, zoneA], products = [widget, gadget, gizmo], movements = [],
     movements_id_seq = 0\<rparr>"

section \<open>Auxiliary facts\<close>

subsection \<open>The writes of updateStock\<close>

lemmas eval_updateStock =
  updateStock_def transaction_def updateStock_body_def select_product_def
  or_zero_def or_null_def insert_movement_def update_stock_row_def






lemma movements_written:
  "movements (written productId quantity type reason userId tU tM p d) =
     movements d @
       [\<lparr>m_id = movements_id_seq d + 1, m_productId = productId, m_type = type,
         m_quantity = quantity, m_previousStock = or_zero (p_currentStock p),
         m_newStock = computed_newStock p quantity type,
         m_reason = or_null reason, m_userId = or_null userId, m_createdAt = Some tM\<rparr>]"
  by (simp add: written_def insert_movement_def update_stock_row_def)




lemma movements_of_written:
  "movements_of productId (written productId quantity type reason userId tU tM p d) =
     movements_of productId d @
       [\<lparr>m_id = movements_id_seq d + 1, m_productId = productId, m_type = type,
         m_quantity = quantity, m_previousStock = or_zero (p_currentStock p),
         m_newStock = computed_newStock p quantity type,
         m_reason = or_null reason, m_userId = or_null userId, m_createdAt = Some tM\<rparr>]"
  by (simp add: movements_of_def movements_written)



subsection \<open>Conditions and the status classes\<close>

lemmas eval_post_stock =
  post_stock_def invalid_stock_update_def eval_updateStock ProductNotFound_def
  InsufficientStock_def

lemma sql_where_and: "sql_where (sql_and a b) \<longleftrightarrow> sql_where a \<and> sql_where b"
  by (auto simp: sql_where_def sql_and_def)

lemma sql_where_and_all: "sql_where (sql_and_all cs) \<longleftrightarrow> list_all sql_where cs"
proof (induction cs)
  case Nil
  show ?case by (simp add: sql_and_all_def sql_where_def)
next
  case (Cons c cs)
  then show ?case by (simp add: sql_and_all_def sql_where_and)
qed

lemma sql_where_eq: "sql_where (sql_eq a (Some y)) \<longleftrightarrow> a = Some y"
  by (cases a) (auto simp: sql_where_def sql_eq_def)

lemma sql_where_gt: "sql_where (sql_gt a b) \<longleftrightarrow> (\<exists>x y. a = Some x \<and> b = Some y \<and> y < x)"
  by (cases a; cases b) (auto simp: sql_where_def sql_gt_def)

lemma sql_where_le: "sql_where (sql_le a b) \<longleftrightarrow> (\<exists>x y. a = Some x \<and> b = Some y \<and> x \<le> y)"
  by (cases a; cases b) (auto simp: sql_where_def sql_le_def)

lemma matches_out: "matches_status out_of_stock p \<longleftrightarrow> p_currentStock p = Some 0"
  by (simp add: matches_status_def status_condition_def sql_where_and_all sql_where_eq)

lemma matches_low:
  "matches_status low_stock p \<longleftrightarrow>
     (\<exists>c m. p_currentStock p = Some c \<and> p_minStock p = Some m \<and> 0 < c \<and> c \<le> m)"
  by (auto simp: matches_status_def status_condition_def sql_where_and_all sql_where_and
        sql_where_le sql_where_gt)

lemma matches_in:
  "matches_status in_stock p \<longleftrightarrow>
     (\<exists>c m. p_currentStock p = Some c \<and> p_minStock p = Some m \<and> m < c)"
  by (simp add: matches_status_def status_condition_def sql_where_and_all sql_where_gt)

lemma matches_all: "matches_status st_all p"
  by (simp add: matches_status_def status_condition_def sql_where_and_all)

lemma matches_classify:
  assumes "p_currentStock p = Some c" "p_minStock p = Some m" "0 \<le> c" "0 \<le> m"
  shows "matches_status st p \<longleftrightarrow> st = st_all \<or> classifyStock c m = st"
  using assms
  by (cases st) (auto simp: matches_out matches_low matches_in matches_all classifyStock_def)

lemma lowStockItems_count:
  "lowStockItems (getDashboardMetrics d) =
     int (length (filter (\<lambda>p. p_isActive p = Some True \<and> matches_status low_stock p) (products d)))"
  by (simp add: getDashboardMetrics_def lowStockItems_query_def matches_status_def
        status_condition_def sql_where_and_all sql_where_and sql_where_eq)

lemma outOfStockItems_count:
  "outOfStockItems (getDashboardMetrics d) =
     int (length (filter (\<lambda>p. p_isActive p = Some True \<and> matches_status out_of_stock p) (products d)))"
  by (simp add: getDashboardMetrics_def outOfStockItems_query_def matches_status_def
        status_condition_def sql_where_and_all sql_where_and sql_where_eq)

lemma conditions_status_only:
  "sql_where (sql_and_all (getProducts_conditions (Some (status_filter st)) p)) \<longleftrightarrow>
     p_isActive p = Some True \<and> matches_status st p"
  by (simp add: getProducts_conditions_def status_filter_def sql_where_and_all
        sql_where_eq matches_status_def)

lemma fst_set_left_join: "fst ` set (products_left_join_zones d) = set (products d)"
proof -
  have blk: "fst ` set (let zs = filter (\<lambda>z. sql_where (sql_eq (p_zoneId p) (Some (z_id z)))) (zones d)
                  in if zs = [] then [(p, None)] else map (\<lambda>z. (p, Some z)) zs) = {p}"
    for p
    by (auto simp: Let_def image_iff filter_empty_conv)
  show ?thesis
    by (simp add: products_left_join_zones_def image_UN blk)
qed

lemma getProducts_status_set:
  "product.truncate ` set (getProducts (Some (status_filter st)) d) =
     {p \<in> set (products d). p_isActive p = Some True \<and> matches_status st p}"
proof -
  have tr: "(product.truncate \<circ> (\<lambda>(p, z). product.extend p \<lparr>zone = z\<rparr>)) = fst"
    by (auto simp: product.truncate_def product.extend_def fun_eq_iff)
  have "product.truncate ` set (getProducts (Some (status_filter st)) d) =
      fst ` {r \<in> set (products_left_join_zones d).
               p_isActive (fst r) = Some True \<and> matches_status st (fst r)}"
    unfolding getProducts_def set_map image_image [symmetric] image_comp tr
    by (simp add: conditions_status_only case_prod_unfold)
  also have "\<dots> = {p \<in> fst ` set (products_left_join_zones d).
                      p_isActive p = Some True \<and> matches_status st p}"
    by auto
  finally show ?thesis by (simp add: fst_set_left_join)
qed

subsection \<open>The total value\<close>

lemma sum_list_map_filter_coalesce:
  "sum_list (List.map_filter (\<lambda>v. v) vs) = sum_list (map (\<lambda>v. coalesce v (0::rat)) vs)"
  by (induction vs) (auto simp: List.map_filter_simps coalesce_def split: option.splits)

lemma coalesce_sql_sum: "coalesce (sql_sum vs) 0 = sum_list (map (\<lambda>v. coalesce v 0) vs)"
proof (cases "List.map_filter (\<lambda>v. v) vs")
  case Nil
  with sum_list_map_filter_coalesce [of vs] show ?thesis
    by (simp add: sql_sum_def coalesce_def)
next
  case (Cons x xs)
  with sum_list_map_filter_coalesce [of vs] show ?thesis
    by (simp add: sql_sum_def coalesce_def)
qed

lemma totalValue_cast: "totalValue (getDashboardMetrics d) = cast_integer (active_value_sum d)"
  by (simp add: getDashboardMetrics_def totalValue_query_def coalesce_sql_sum active_value_sum_def
        sql_where_eq comp_def)

lemma map_filter_fmult:
  "List.map_filter (\<lambda>v. v) (map (\<lambda>p. sql_fmult fl_mult (p_currentStock p) (p_unitPrice p)) ps) =
     concat (map (\<lambda>p. case p_currentStock p of None \<Rightarrow> []
                       | Some c \<Rightarrow> (case p_unitPrice p of None \<Rightarrow> [] | Some u \<Rightarrow> [fl_mult c u])) ps)"
  by (induction ps) (auto simp: List.map_filter_simps sql_fmult_def split: option.splits)

lemma totalValue_sqlite_cast:
  "totalValue (getDashboardMetrics_sqlite fl_mult fl_sum d) =
     cast_integer_sqlite (active_float_sum fl_mult fl_sum d)"
proof -
  let ?vs = "active_float_values fl_mult d"
  have mf: "List.map_filter (\<lambda>v. v)
        (map (\<lambda>p. sql_fmult fl_mult (p_currentStock p) (p_unitPrice p))
           (filter (\<lambda>p. p_isActive p = Some True) (products d))) = ?vs"
    by (simp only: map_filter_fmult active_float_values_def)
  have "coalesce (sql_fsum fl_sum (map (\<lambda>p. sql_fmult fl_mult (p_currentStock p) (p_unitPrice p))
            (filter (\<lambda>p. p_isActive p = Some True) (products d)))) 0 =
        active_float_sum fl_mult fl_sum d"
    unfolding sql_fsum_def mf active_float_sum_def
    by (cases ?vs) (simp_all add: coalesce_def)
  then show ?thesis
    by (simp add: getDashboardMetrics_sqlite_def totalValue_query_sqlite_def sql_where_eq)
qed

lemma round_half_away_near: "\<bar>of_int (round_half_away q) - q\<bar> \<le> 1 / 2"
proof (cases "0 \<le> q")
  case True
  have "\<bar>of_int \<lfloor>q + 1 / 2\<rfloor> - q\<bar> \<le> 1 / 2"
    by linarith
  with True show ?thesis
    by (simp only: round_half_away_def if_True)
next
  case False
  have "\<bar>- of_int \<lfloor>- q + 1 / 2\<rfloor> - q\<bar> \<le> 1 / 2"
    by linarith
  with False show ?thesis
    by (simp only: round_half_away_def if_False of_int_minus)
qed

lemma cast_integer_Inr:
  "cast_integer q = Inr n \<Longrightarrow>
     \<bar>of_int n - q\<bar> \<le> 1 / 2 \<and> - 2147483648 \<le> n \<and> n \<le> 2147483647"
  using round_half_away_near [of q]
  by (auto simp: cast_integer_def Let_def split: if_splits)

lemma truncate_toward_zero_near:
  "\<bar>of_int (truncate_toward_zero q) - q\<bar> < 1 \<and> \<bar>of_int (truncate_toward_zero q)\<bar> \<le> \<bar>q\<bar>"
proof (cases "0 \<le> q")
  case True
  then have "0 \<le> \<lfloor>q\<rfloor>"
    by simp
  then have "\<bar>of_int \<lfloor>q\<rfloor> - q\<bar> < 1 \<and> \<bar>of_int \<lfloor>q\<rfloor>\<bar> \<le> \<bar>q\<bar>"
    by linarith
  with True show ?thesis
    by (simp only: truncate_toward_zero_def if_True)
next
  case False
  then have "0 \<le> \<lfloor>- q\<rfloor>"
    by simp
  then have "\<bar>- of_int \<lfloor>- q\<rfloor> - q\<bar> < 1 \<and> \<bar>- of_int \<lfloor>- q\<rfloor>\<bar> \<le> \<bar>q\<bar>"
    by linarith
  with False show ?thesis
    by (simp only: truncate_toward_zero_def if_False of_int_minus)
qed

lemma cast_integer_sqlite_Inr:
  assumes "cast_integer_sqlite q = Inr n"
  shows "\<bar>of_int n - q\<bar> < 1 \<and> \<bar>of_int n\<bar> \<le> \<bar>q\<bar> \<and> - 9007199254740991 \<le> n \<and> n \<le> 9007199254740991"
proof -
  let ?t = "truncate_toward_zero q"
  let ?c = "max (- 9223372036854775808) (min 9223372036854775807 ?t)"
  from assms have n: "n = ?c" and safe: "- 9007199254740991 \<le> ?c" "?c \<le> 9007199254740991"
    by (auto simp: cast_integer_sqlite_def Let_def split: if_splits)
  from safe have "?c = ?t"
    by (auto simp: max_def min_def split: if_splits)
  with n safe truncate_toward_zero_near [of q] show ?thesis
    by simp
qed

lemma inactive_row_values:
  assumes "p_isActive p \<noteq> Some True"
  shows "active_value_sum (d\<lparr>products := xs @ p # ys\<rparr>) =
           active_value_sum (d\<lparr>products := xs @ ys\<rparr>) \<and>
         active_float_sum fl_mult fl_sum (d\<lparr>products := xs @ p # ys\<rparr>) =
           active_float_sum fl_mult fl_sum (d\<lparr>products := xs @ ys\<rparr>)"
proof -
  have "active_float_values fl_mult (d\<lparr>products := xs @ p # ys\<rparr>) =
      active_float_values fl_mult (d\<lparr>products := xs @ ys\<rparr>)"
    using assms by (simp add: active_float_values_def)
  then have "active_float_sum fl_mult fl_sum (d\<lparr>products := xs @ p # ys\<rparr>) =
      active_float_sum fl_mult fl_sum (d\<lparr>products := xs @ ys\<rparr>)"
    by (simp only: active_float_sum_def)
  moreover have "active_value_sum (d\<lparr>products := xs @ p # ys\<rparr>) =
      active_value_sum (d\<lparr>products := xs @ ys\<rparr>)"
    using assms by (simp add: active_value_sum_def)
  ultimately show ?thesis by simp
qed

lemmas eval_totalValue =
  getDashboardMetrics_def getDashboardMetrics_sqlite_def totalValue_query_def
  totalValue_query_sqlite_def sql_where_def sql_eq_def sql_mult_def sql_fmult_def sql_sum_def
  sql_fsum_def coalesce_def cast_integer_def cast_integer_sqlite_def round_half_away_def
  truncate_toward_zero_def exact_mult_def exact_sum_def List.map_filter_simps floor_eq_iff
  IntegerOutOfRange_def UnsafeInteger_def Let_def

subsection \<open>The zone status\<close>

lemma sql_where_eq_left: "sql_where (sql_eq (Some x) b) \<longleftrightarrow> b = Some x"
  by (cases b) (auto simp: sql_where_def sql_eq_def)

lemma zones_left_join_products_blocks:
  "zones_left_join_products d = concat (map (join_block d) (zones d))"
proof -
  have on: "sql_where (sql_and (sql_eq (Some (z_id z)) (p_zoneId p))
                               (sql_eq (p_isActive p) (Some True))) \<longleftrightarrow>
            p_isActive p = Some True \<and> p_zoneId p = Some (z_id z)" for z p
    by (auto simp: sql_where_and sql_where_eq sql_where_eq_left)
  have blk: "(let ps = filter (\<lambda>p. sql_where (sql_and (sql_eq (Some (z_id z)) (p_zoneId p))
                                                     (sql_eq (p_isActive p) (Some True))))
                         (products d)
              in if ps = [] then [(z, None)] else map (\<lambda>p. (z, Some p)) ps) = join_block d z"
    for z
    by (simp add: join_block_def active_in_zone_def Let_def on)
  show ?thesis
    by (simp only: zones_left_join_products_def blk)
qed

lemma join_block_fst: "r \<in> set (join_block d z) \<Longrightarrow> fst r = z"
  by (auto simp: join_block_def split: if_splits)

lemma join_block_nonempty: "join_block d z \<noteq> []"
  by (simp add: join_block_def)

lemma join_block_count:
  "length (filter (\<lambda>r. snd r \<noteq> None) (join_block d z)) = length (active_in_zone d z)"
  by (simp add: join_block_def filter_map comp_def)

lemma filter_join_block:
  "filter (\<lambda>r. z_id (fst r) = k) (join_block d z) = (if z_id z = k then join_block d z else [])"
proof -
  have "filter (\<lambda>r. z_id (fst r) = k) (join_block d z) = filter (\<lambda>r. z_id z = k) (join_block d z)"
    by (rule filter_cong) (simp_all add: join_block_fst)
  then show ?thesis by simp
qed

lemma filter_blocks_distinct:
  "distinct (map z_id zs) \<Longrightarrow> z \<in> set zs \<Longrightarrow>
   filter (\<lambda>r. z_id (fst r) = z_id z) (concat (map (join_block d) zs)) = join_block d z"
proof (induction zs)
  case Nil
  then show ?case by simp
next
  case (Cons a zs)
  show ?case
  proof (cases "a = z")
    case True
    with Cons.prems have "\<forall>z' \<in> set zs. z_id z' \<noteq> z_id z"
      by (fastforce simp: image_iff)
    then have "filter (\<lambda>r. z_id (fst r) = z_id z) (concat (map (join_block d) zs)) = []"
      by (induction zs) (simp_all add: filter_join_block)
    with True show ?thesis by (simp add: filter_join_block)
  next
    case False
    with Cons.prems have "z \<in> set zs" "z_id a \<noteq> z_id z" "distinct (map z_id zs)"
      by auto
    with Cons.IH show ?thesis by (simp add: filter_join_block)
  qed
qed

lemma group_row_expected:
  assumes "distinct (map z_id (zones d))" "z \<in> set (zones d)"
  shows "group_row (zones_left_join_products d) (z_id z) = [expected_row d z]"
proof -
  have rows: "filter (\<lambda>r. z_id (fst r) = z_id z) (zones_left_join_products d) = join_block d z"
    using assms by (simp add: zones_left_join_products_blocks filter_blocks_distinct)
  obtain r rs where blk: "join_block d z = r # rs"
    using join_block_nonempty [of d z] by (cases "join_block d z") auto
  then have "fst r = z"
    using join_block_fst [of r d z] by simp
  moreover have "length (filter (\<lambda>r. snd r \<noteq> None) (r # rs)) = length (active_in_zone d z)"
    using join_block_count [of d z] blk by simp
  ultimately show ?thesis
    unfolding group_row_def rows blk by (simp add: expected_row_def)
qed

lemma join_keys: "set (map (\<lambda>r. z_id (fst r)) (zones_left_join_products d)) = z_id ` set (zones d)"
proof -
  have "fst ` set (join_block d z) = {z}" for z
    using join_block_nonempty [of d z] join_block_fst [of _ d z]
    by (cases "join_block d z") (auto simp: image_iff)
  then have "fst ` set (zones_left_join_products d) = set (zones d)"
    by (simp add: zones_left_join_products_blocks image_UN)
  then show ?thesis
    by (simp add: image_image [symmetric] del: image_image)
qed

lemma mset_concat_map_cong:
  "mset xs = mset ys \<Longrightarrow> mset (concat (map g xs)) = mset (concat (map g ys))"
proof -
  assume eq: "mset xs = mset ys"
  have "mset (concat (map g zs)) = sum_mset (image_mset (\<lambda>z. mset (g z)) (mset zs))" for zs
    by (induction zs) simp_all
  with eq show ?thesis by simp
qed

lemma zoneStatus_mset:
  assumes "distinct (map z_id (zones d))"
  shows "mset (zoneStatus_query d) = mset (map (expected_row d) (zones d))"
proof -
  let ?rows = "zones_left_join_products d"
  let ?keys = "remdups (map (\<lambda>r. z_id (fst r)) ?rows)"
  have sk: "set ?keys = set (map z_id (zones d))"
    using join_keys [of d] by simp
  have "distinct ?keys"
    by simp
  from set_eq_iff_mset_eq_distinct [OF this assms] sk
  have keys: "mset ?keys = mset (map z_id (zones d))"
    by blast
  have "mset (zoneStatus_query d) = mset (concat (map (group_row ?rows) ?keys))"
    by (simp add: zoneStatus_query_def Let_def)
  also have "\<dots> = mset (concat (map (group_row ?rows) (map z_id (zones d))))"
    by (rule mset_concat_map_cong [OF keys])
  also have "concat (map (group_row ?rows) (map z_id (zones d))) =
      concat (map (\<lambda>z. [expected_row d z]) (zones d))"
    unfolding map_map comp_def
    by (rule arg_cong [where f = concat], rule map_cong)
       (simp_all add: group_row_expected [OF assms])
  finally show ?thesis by simp
qed

subsection \<open>The product listing\<close>

lemma getProducts_sorted: "sorted (map p_name (getProducts fs d))"
proof -
  have "map p_name (getProducts fs d) =
      map (\<lambda>(p, z). p_name p)
        (sort_key (\<lambda>(p, z). p_name p)
          (filter (\<lambda>(p, z). sql_where (sql_and_all (getProducts_conditions fs p)))
             (products_left_join_zones d)))"
    by (simp add: getProducts_def comp_def case_prod_unfold product.extend_def)
  then show ?thesis
    by (simp only: sorted_sort_key)
qed

lemma getProducts_active: "r \<in> set (getProducts fs d) \<Longrightarrow> p_isActive r = Some True"
  by (auto simp: getProducts_def getProducts_conditions_def sql_where_and_all sql_where_eq
        product.extend_def)

lemma like_match_literal_prefix:
  "wildcard_free s \<Longrightarrow> like_match (s @ ''%'') t \<longleftrightarrow> take (length s) t = s"
proof (induction s arbitrary: t)
  case Nil
  show ?case by (induction t) simp_all
next
  case (Cons c s)
  then have "wildcard_free s" "c \<noteq> CHR ''%''" "c \<noteq> CHR ''_''" "c \<noteq> CHR 0x5C"
    by (auto simp: wildcard_free_def)
  with Cons.IH show ?case
    by (cases t) auto
qed

lemma like_match_percent:
  "like_match (CHR ''%'' # p) t \<longleftrightarrow> like_match p t \<or> (t \<noteq> [] \<and> like_match (CHR ''%'' # p) (tl t))"
  by (cases t) simp_all

lemma like_match_contains:
  "wildcard_free s \<Longrightarrow> like_match (''%'' @ s @ ''%'') t \<longleftrightarrow> is_infix s t"
proof (induction t)
  case Nil
  then show ?case
    using like_match_literal_prefix [of s "[]"] by (cases s) auto
next
  case (Cons x t)
  then show ?case
    using like_match_literal_prefix [of s "x # t"] by simp
qed

lemma lower_char_special:
  "lower_char c = CHR ''%'' \<longleftrightarrow> c = CHR ''%''"
  "lower_char c = CHR ''_'' \<longleftrightarrow> c = CHR ''_''"
  "lower_char c = CHR 0x5C \<longleftrightarrow> c = CHR 0x5C"
  by (auto simp: lower_char_def split: option.splits if_splits)

lemma wildcard_free_lower: "wildcard_free (map lower_char s) = wildcard_free s"
proof (induction s)
  case Nil
  show ?case by simp
next
  case (Cons c s)
  have "CHR ''%'' = lower_char c \<longleftrightarrow> CHR ''%'' = c" "CHR ''_'' = lower_char c \<longleftrightarrow> CHR ''_'' = c"
      "CHR 0x5C = lower_char c \<longleftrightarrow> CHR 0x5C = c"
    using lower_char_special [of c] by (metis+)
  with Cons show ?case
    by (simp add: wildcard_free_def) blast
qed

lemma ilike_contains:
  "wildcard_free s \<Longrightarrow> ilike t (''%'' @ s @ ''%'') = Some (contains_ci s t)"
  using like_match_contains [of "map lower_char s" "map lower_char t"]
  by (simp add: ilike_def contains_ci_def wildcard_free_lower lower_char_def)

lemma sql_where_or: "sql_where (sql_or a b) \<longleftrightarrow> sql_where a \<or> sql_where b"
  by (auto simp: sql_where_def sql_or_def)

lemma sql_where_Some: "sql_where (Some b) \<longleftrightarrow> b"
  by (simp add: sql_where_def)

lemma is_infix_Nil: "is_infix [] t"
  by (cases t) simp_all

lemma getProducts_conditions_spec:
  assumes "f_category fs \<noteq> Some []" "f_zoneId fs \<noteq> Some 0"
    and "\<And>s. f_search fs = Some s \<Longrightarrow> wildcard_free s"
  shows "sql_where (sql_and_all (getProducts_conditions (Some fs) p)) \<longleftrightarrow> filter_matches fs p"
proof -
  have cat: "list_all sql_where
      (case f_category fs of None \<Rightarrow> []
       | Some c \<Rightarrow> if c = [] then [] else [sql_eq (Some (p_category p)) (Some c)]) \<longleftrightarrow>
      (case f_category fs of None \<Rightarrow> True | Some c \<Rightarrow> p_category p = c)"
    using assms(1) by (simp add: sql_where_eq split: option.splits)
  have zon: "list_all sql_where
      (case f_zoneId fs of None \<Rightarrow> []
       | Some z \<Rightarrow> if z = 0 then [] else [sql_eq (p_zoneId p) (Some z)]) \<longleftrightarrow>
      (case f_zoneId fs of None \<Rightarrow> True | Some z \<Rightarrow> p_zoneId p = Some z)"
    using assms(2) by (simp add: sql_where_eq split: option.splits)
  have sea: "list_all sql_where
      (case f_search fs of None \<Rightarrow> []
       | Some s \<Rightarrow> if s = [] then []
                   else [sql_or (ilike (p_name p) (''%'' @ s @ ''%''))
                           (sql_or (ilike (p_productId p) (''%'' @ s @ ''%''))
                                   (ilike (p_category p) (''%'' @ s @ ''%'')))]) \<longleftrightarrow>
      (case f_search fs of None \<Rightarrow> True
       | Some s \<Rightarrow> contains_ci s (p_name p) \<or> contains_ci s (p_productId p) \<or>
                   contains_ci s (p_category p))"
  proof (cases "f_search fs")
    case None
    then show ?thesis by simp
  next
    case (Some s)
    show ?thesis
    proof (cases "s = []")
      case True
      with Some show ?thesis by (simp add: contains_ci_def is_infix_Nil)
    next
      case False
      with Some ilike_contains [OF assms(3) [OF Some]] show ?thesis
        by (simp add: sql_where_or sql_where_Some)
    qed
  qed
  have sta: "list_all sql_where (case f_status fs of None \<Rightarrow> [] | Some st \<Rightarrow> status_condition st p) \<longleftrightarrow>
      (case f_status fs of None \<Rightarrow> True | Some st \<Rightarrow> matches_status st p)"
    by (simp add: matches_status_def sql_where_and_all split: option.splits)
  show ?thesis
    unfolding getProducts_conditions_def sql_where_and_all filter_matches_def list_all_append
    by (simp only: Option.bind.simps cat zon sea sta list.pred_inject sql_where_eq simp_thms)
qed

lemma getProducts_set:
  "product.truncate ` set (getProducts fs d) =
     {p \<in> set (products d). sql_where (sql_and_all (getProducts_conditions fs p))}"
proof -
  have tr: "(product.truncate \<circ> (\<lambda>(p, z). product.extend p \<lparr>zone = z\<rparr>)) = fst"
    by (auto simp: product.truncate_def product.extend_def fun_eq_iff)
  have "product.truncate ` set (getProducts fs d) =
      fst ` {r \<in> set (products_left_join_zones d).
               sql_where (sql_and_all (getProducts_conditions fs (fst r)))}"
    unfolding getProducts_def set_map image_image [symmetric] image_comp tr
    by (simp add: case_prod_unfold)
  also have "\<dots> = {p \<in> fst ` set (products_left_join_zones d).
                      sql_where (sql_and_all (getProducts_conditions fs p))}"
    by auto
  finally show ?thesis by (simp add: fst_set_left_join)
qed

lemma getProducts_listing:
  assumes "f_category fs \<noteq> Some []" "f_zoneId fs \<noteq> Some 0"
    and "\<And>s. f_search fs = Some s \<Longrightarrow> wildcard_free s"
  shows "product.truncate ` set (getProducts (Some fs) d) =
           {p \<in> set (products d). filter_matches fs p}"
  by (simp add: getProducts_set getProducts_conditions_spec [OF assms])

section \<open>Stock ledger\<close>

text \<open>
  C1. When the product exists and the stock computed by updateStock (previous stock plus
  the quantity for IN, minus the quantity for OUT) is negative, updateStock fails with the
  "Insufficient stock" error and the database after the call is the database before it:
  the product row, with its currentStock and updatedAt, and the movement table are as
  they were.
\<close>

theorem updateStock_insufficient:
  assumes "select_product productId d = Some p"
    and "computed_newStock p quantity type < 0"
  shows "updateStock productId quantity type reason userId tU tM d = (Inl InsufficientStock, d)"
  using assms
  by (cases type)
     (simp_all add: updateStock_def transaction_def updateStock_body_def computed_newStock_def
        Let_def)

theorem updateStock_insufficient_witness:
  "select_product 1 db0 = Some widget \<and> computed_newStock widget 5 OUT < 0 \<and>
   updateStock 1 5 OUT None None 200 200 db0 = (Inl InsufficientStock, db0)"
proof -
  have a: "select_product 1 db0 = Some widget"
    by (simp add: select_product_def db0_def widget_def)
  have b: "computed_newStock widget 5 OUT < 0"
    by (simp add: computed_newStock_def widget_def or_zero_def)
  show ?thesis
    using a b updateStock_insufficient [OF a b] by simp
qed





text \<open>
  C3. A request with a negative quantity is not rejected. The route refuses a missing
  quantity and the quantity 0, and updateStock checks no quantity: POST
  /api/products/1/stock with quantity -5 and type OUT on a product with stock 3 answers
  200, raises the stock to 8 and inserts an OUT movement of quantity -5.
\<close>

theorem negative_quantity_accepted:
  "post_stock req_negative 201 202 db0 =
     (\<lparr>status = 200, message = ''Stock updated successfully''\<rparr>,
      \<lparr>zones = [],
       products = [widget\<lparr>p_currentStock := Some 8, p_updatedAt := Some 201\<rparr>],
       movements =
         [\<lparr>m_id = 1, m_productId = 1, m_type = OUT, m_quantity = - 5, m_previousStock = 3,
           m_newStock = 8, m_reason = None, m_userId = Some ''u1'',
           m_createdAt = Some 202\<rparr>],
       movements_id_seq = 1\<rparr>)"
  by (simp add: eval_post_stock req_negative_def db0_def widget_def)

text \<open>
  C6, as the route maps errors. Malformed input (a missing quantity or the quantity 0, a
  missing type or a type other than IN and OUT) is answered with 400 and nothing is
  written. Every error that updateStock raises is answered with 500 and the message of
  the error, and nothing is written: a product-lookup miss with 500 "Product not found",
  insufficient stock with 500 "Insufficient stock". A successful update is answered with
  200.
\<close>

theorem post_stock_responses:
  "post_stock r tU tM d =
     (if invalid_stock_update r
      then (\<lparr>status = 400, message = ''Invalid stock update data''\<rparr>, d)
      else (case select_product (r_id r) d of
              None \<Rightarrow> (\<lparr>status = 500, message = ''Product not found''\<rparr>, d)
            | Some p \<Rightarrow>
                if computed_newStock p (or_zero (r_quantity r))
                     (if r_type r = Some ''IN'' then IN else OUT) < 0
                then (\<lparr>status = 500, message = ''Insufficient stock''\<rparr>, d)
                else (\<lparr>status = 200, message = ''Stock updated successfully''\<rparr>,
                      written (r_id r) (or_zero (r_quantity r))
                        (if r_type r = Some ''IN'' then IN else OUT)
                        (r_reason r) (Some (r_user r)) tU tM p d)))"
  by (simp add: post_stock_def updateStock_def transaction_def updateStock_body_def
        computed_newStock_def written_def ProductNotFound_def InsufficientStock_def Let_def
      split: option.splits)

theorem post_stock_responses_witness:
  "post_stock \<lparr>r_id = 1, r_quantity = Some 0, r_type = Some ''IN'', r_reason = None,
      r_user = ''u1''\<rparr> 201 202 db0 =
     (\<lparr>status = 400, message = ''Invalid stock update data''\<rparr>, db0) \<and>
   post_stock \<lparr>r_id = 1, r_quantity = Some 5, r_type = Some ''in'', r_reason = None,
      r_user = ''u1''\<rparr> 201 202 db0 =
     (\<lparr>status = 400, message = ''Invalid stock update data''\<rparr>, db0) \<and>
   post_stock req_too_much 201 202 db0 =
     (\<lparr>status = 500, message = ''Insufficient stock''\<rparr>, db0) \<and>
   post_stock \<lparr>r_id = 1, r_quantity = Some 5, r_type = Some ''IN'',
      r_reason = Some ''restock'', r_user = ''u1''\<rparr> 201 202 db0 =
     (\<lparr>status = 200, message = ''Stock updated successfully''\<rparr>, db1)"
  using post_stock_responses [of req_too_much 201 202 db0]
  by (simp add: eval_post_stock req_too_much_def db0_def db1_def widget_def)

text \<open>
  C6 as stated fails: a product-lookup miss is answered with 500, not 404, and
  insufficient stock with 500, not a 4xx status.
\<close>

theorem stock_errors_are_500:
  "select_product 99 db0 = None \<and>
   post_stock req_missing 201 202 db0 =
     (\<lparr>status = 500, message = ''Product not found''\<rparr>, db0) \<and>
   post_stock req_too_much 201 202 db0 =
     (\<lparr>status = 500, message = ''Insufficient stock''\<rparr>, db0)"
  by (simp add: eval_post_stock req_missing_def req_too_much_def db0_def widget_def)

section \<open>Soft delete\<close>

text \<open>
  C10. deleteProduct changes no movement row, no zone row and not the sequence of
  movement ids; it keeps the number and order of the product rows; every product row
  keeps all its columns but isActive, updatedAt among them; isActive becomes false on
  the rows with the given id and stays as it was on the others.
\<close>

theorem deleteProduct_frame:
  "movements (deleteProduct i d) = movements d \<and>
   movements_id_seq (deleteProduct i d) = movements_id_seq d \<and>
   zones (deleteProduct i d) = zones d \<and>
   length (products (deleteProduct i d)) = length (products d) \<and>
   (\<forall>n < length (products d).
      (products (deleteProduct i d) ! n)\<lparr>p_isActive := p_isActive (products d ! n)\<rparr>
         = products d ! n \<and>
      p_isActive (products (deleteProduct i d) ! n)
         = (if p_id (products d ! n) = i then Some False else p_isActive (products d ! n)))"
  by (simp add: deleteProduct_def)

theorem deleteProduct_frame_witness:
  "(0::nat) < length (products db2) \<and>
   products (deleteProduct 1 db2) ! 0 =
     widget\<lparr>p_currentStock := Some 3, p_updatedAt := Some 301, p_isActive := Some False\<rparr> \<and>
   (products (deleteProduct 1 db2) ! 0)\<lparr>p_isActive := p_isActive (products db2 ! 0)\<rparr> =
     products db2 ! 0 \<and>
   movements (deleteProduct 1 db2) = movements db2"
proof -
  have n: "(0::nat) < length (products db2)"
    by (simp add: db2_def)
  have row: "products (deleteProduct 1 db2) ! 0 =
      widget\<lparr>p_currentStock := Some 3, p_updatedAt := Some 301, p_isActive := Some False\<rparr>"
    by (simp add: deleteProduct_def db2_def widget_def)
  from deleteProduct_frame [of 1 db2] n
  have "(products (deleteProduct 1 db2) ! 0)\<lparr>p_isActive := p_isActive (products db2 ! 0)\<rparr> =
      products db2 ! 0" "movements (deleteProduct 1 db2) = movements db2"
    by blast+
  with n row show ?thesis by simp
qed

section \<open>Metrics\<close>

text \<open>
  C4. A row passes the out_of_stock condition exactly when its stock is 0, and the
  low_stock condition exactly when its stock is positive and at most its minimum stock.
  For a product of the data model (stock and minimum stock not NULL and not negative) the
  three conditions of the status filter are the three classes of classifyStock: exactly
  one of them holds, in_stock being the one that holds when the other two do not. The
  products that getProducts lists for a status are the active products that pass its
  condition, and the dashboard counts lowStockItems and outOfStockItems count the active
  products that pass the same low_stock and out_of_stock conditions. A product with stock
  10 and minimum 10 is low, one with stock 11 and minimum 10 is in stock, and one with
  stock 0 is out of stock whatever its minimum.
\<close>

theorem stock_classification:
  "(matches_status out_of_stock p \<longleftrightarrow> p_currentStock p = Some 0) \<and>
   (matches_status low_stock p \<longleftrightarrow>
      (\<exists>c m. p_currentStock p = Some c \<and> p_minStock p = Some m \<and> 0 < c \<and> c \<le> m)) \<and>
   (\<forall>c m. p_currentStock p = Some c \<and> p_minStock p = Some m \<and> 0 \<le> c \<and> 0 \<le> m \<longrightarrow>
      (matches_status in_stock p \<longleftrightarrow> classifyStock c m = in_stock) \<and>
      (matches_status low_stock p \<longleftrightarrow> classifyStock c m = low_stock) \<and>
      (matches_status out_of_stock p \<longleftrightarrow> classifyStock c m = out_of_stock)) \<and>
   product.truncate ` set (getProducts (Some (status_filter st)) d) =
     {p \<in> set (products d). p_isActive p = Some True \<and> matches_status st p} \<and>
   lowStockItems (getDashboardMetrics d) =
     int (length (filter (\<lambda>p. p_isActive p = Some True \<and> matches_status low_stock p)
            (products d))) \<and>
   outOfStockItems (getDashboardMetrics d) =
     int (length (filter (\<lambda>p. p_isActive p = Some True \<and> matches_status out_of_stock p)
            (products d))) \<and>
   (p_currentStock p = Some 10 \<and> p_minStock p = Some 10 \<longrightarrow> matches_status low_stock p) \<and>
   (p_currentStock p = Some 11 \<and> p_minStock p = Some 10 \<longrightarrow> matches_status in_stock p) \<and>
   (p_currentStock p = Some 0 \<longrightarrow> matches_status out_of_stock p)"
proof -
  have "\<forall>c m. p_currentStock p = Some c \<and> p_minStock p = Some m \<and> 0 \<le> c \<and> 0 \<le> m \<longrightarrow>
      (matches_status in_stock p \<longleftrightarrow> classifyStock c m = in_stock) \<and>
      (matches_status low_stock p \<longleftrightarrow> classifyStock c m = low_stock) \<and>
      (matches_status out_of_stock p \<longleftrightarrow> classifyStock c m = out_of_stock)"
    by (simp add: matches_classify)
  moreover have "(p_currentStock p = Some 10 \<and> p_minStock p = Some 10 \<longrightarrow>
        matches_status low_stock p) \<and>
      (p_currentStock p = Some 11 \<and> p_minStock p = Some 10 \<longrightarrow> matches_status in_stock p) \<and>
      (p_currentStock p = Some 0 \<longrightarrow> matches_status out_of_stock p)"
    by (simp add: matches_out matches_low matches_in)
  ultimately show ?thesis
    using matches_out [of p] matches_low [of p] getProducts_status_set [of st d]
      lowStockItems_count [of d] outOfStockItems_count [of d]
    by blast
qed

theorem stock_classification_witness:
  "p_currentStock gadget = Some 10 \<and> p_minStock gadget = Some 10 \<and>
   matches_status low_stock gadget \<and> \<not> matches_status in_stock gadget \<and>
   \<not> matches_status out_of_stock gadget \<and> classifyStock 10 10 = low_stock"
proof -
  have a: "p_currentStock gadget = Some 10 \<and> p_minStock gadget = Some 10 \<and> (0::int) \<le> 10 \<and> (0::int) \<le> 10"
    by (simp add: gadget_def)
  have b: "classifyStock 10 10 = low_stock"
    by (simp add: classifyStock_def)
  from stock_classification [of gadget st_all db0] a
  have "(matches_status in_stock gadget \<longleftrightarrow> classifyStock 10 10 = in_stock) \<and>
      (matches_status low_stock gadget \<longleftrightarrow> classifyStock 10 10 = low_stock) \<and>
      (matches_status out_of_stock gadget \<longleftrightarrow> classifyStock 10 10 = out_of_stock)"
    by blast
  with a b show ?thesis by simp
qed

text \<open>
  C5, as the queries compute it. The total value is the sum of currentStock times
  unitPrice over the products with isActive true, cast to an integer by the query.
  PostgreSQL: the sum is exact; totalValue is the sum rounded to the nearest whole number,
  at most one half away from it, and the call fails with "integer out of range" exactly
  when the rounded sum does not fit 32 bits. SQLite: the products and the sum are
  floating-point; totalValue is that sum with its fraction dropped, less than 1 away from
  it and not larger in magnitude, unless the integer is not a safe JavaScript number,
  when the call fails. In both variants a product whose isActive is not true contributes
  nothing: removing its row leaves the outcome unchanged.
\<close>

theorem totalValue_cast_of_sum:
  "totalValue (getDashboardMetrics d) = cast_integer (active_value_sum d) \<and>
   totalValue (getDashboardMetrics_sqlite fl_mult fl_sum d) =
     cast_integer_sqlite (active_float_sum fl_mult fl_sum d) \<and>
   (\<forall>n. totalValue (getDashboardMetrics d) = Inr n \<longrightarrow>
      \<bar>of_int n - active_value_sum d\<bar> \<le> 1 / 2) \<and>
   (totalValue (getDashboardMetrics d) = Inl IntegerOutOfRange \<longleftrightarrow>
      round_half_away (active_value_sum d) < - 2147483648 \<or>
      2147483647 < round_half_away (active_value_sum d)) \<and>
   (\<forall>n. totalValue (getDashboardMetrics_sqlite fl_mult fl_sum d) = Inr n \<longrightarrow>
      \<bar>of_int n - active_float_sum fl_mult fl_sum d\<bar> < 1 \<and>
      \<bar>of_int n\<bar> \<le> \<bar>active_float_sum fl_mult fl_sum d\<bar>) \<and>
   (\<forall>xs p ys. products d = xs @ p # ys \<and> p_isActive p \<noteq> Some True \<longrightarrow>
      totalValue (getDashboardMetrics d) =
        totalValue (getDashboardMetrics (d\<lparr>products := xs @ ys\<rparr>)) \<and>
      totalValue (getDashboardMetrics_sqlite fl_mult fl_sum d) =
        totalValue (getDashboardMetrics_sqlite fl_mult fl_sum (d\<lparr>products := xs @ ys\<rparr>)))"
proof -
  have near: "\<bar>of_int n - active_value_sum d\<bar> \<le> 1 / 2"
    if "totalValue (getDashboardMetrics d) = Inr n" for n
    using that cast_integer_Inr [of "active_value_sum d" n] by (simp add: totalValue_cast)
  have out: "totalValue (getDashboardMetrics d) = Inl IntegerOutOfRange \<longleftrightarrow>
      round_half_away (active_value_sum d) < - 2147483648 \<or>
      2147483647 < round_half_away (active_value_sum d)"
    by (auto simp: totalValue_cast cast_integer_def Let_def)
  have trunc: "\<bar>of_int n - active_float_sum fl_mult fl_sum d\<bar> < 1 \<and>
      \<bar>of_int n\<bar> \<le> \<bar>active_float_sum fl_mult fl_sum d\<bar>"
    if "totalValue (getDashboardMetrics_sqlite fl_mult fl_sum d) = Inr n" for n
    using that cast_integer_sqlite_Inr [of "active_float_sum fl_mult fl_sum d" n]
    by (simp add: totalValue_sqlite_cast)
  have frame: "totalValue (getDashboardMetrics d) =
        totalValue (getDashboardMetrics (d\<lparr>products := xs @ ys\<rparr>)) \<and>
      totalValue (getDashboardMetrics_sqlite fl_mult fl_sum d) =
        totalValue (getDashboardMetrics_sqlite fl_mult fl_sum (d\<lparr>products := xs @ ys\<rparr>))"
    if "products d = xs @ p # ys" "p_isActive p \<noteq> Some True" for xs p ys
  proof -
    from that(1) have "d = d\<lparr>products := xs @ p # ys\<rparr>"
      by simp
    with inactive_row_values [OF that(2), where d = d and xs = xs and ys = ys
        and fl_mult = fl_mult and fl_sum = fl_sum]
    have "active_value_sum d = active_value_sum (d\<lparr>products := xs @ ys\<rparr>)"
      "active_float_sum fl_mult fl_sum d =
         active_float_sum fl_mult fl_sum (d\<lparr>products := xs @ ys\<rparr>)"
      by simp_all
    then show ?thesis
      by (simp only: totalValue_cast totalValue_sqlite_cast)
  qed
  from near out trunc frame totalValue_cast [of d] totalValue_sqlite_cast [of fl_mult fl_sum d]
  show ?thesis by blast
qed

theorem totalValue_cast_of_sum_witness:
  "products db5 = [widget] @ gadget\<lparr>p_isActive := Some False\<rparr> # [] \<and>
   active_value_sum db5 = 3 / 4 \<and>
   active_float_sum exact_mult exact_sum db5 = 3 / 4 \<and>
   totalValue (getDashboardMetrics db5) = Inr 1 \<and>
   totalValue (getDashboardMetrics_sqlite exact_mult exact_sum db5) = Inr 0 \<and>
   \<bar>of_int 1 - (3 / 4 :: rat)\<bar> \<le> 1 / 2 \<and>
   \<bar>of_int 0 - (3 / 4 :: rat)\<bar> < 1 \<and>
   totalValue (getDashboardMetrics (db5\<lparr>products := [widget] @ []\<rparr>)) = Inr 1 \<and>
   totalValue (getDashboardMetrics_sqlite exact_mult exact_sum (db5\<lparr>products := [widget] @ []\<rparr>)) =
     Inr 0 \<and>
   totalValue (getDashboardMetrics db6) = Inl IntegerOutOfRange \<and>
   totalValue (getDashboardMetrics_sqlite exact_mult exact_sum db6) = Inr 4000000000"
proof -
  have p: "products db5 = [widget] @ gadget\<lparr>p_isActive := Some False\<rparr> # []"
      "p_isActive (gadget\<lparr>p_isActive := Some False\<rparr>) \<noteq> Some True"
    by (simp_all add: db5_def)
  have s: "active_value_sum db5 = 3 / 4"
    by (simp add: active_value_sum_def db5_def widget_def gadget_def sql_mult_def coalesce_def)
  have f: "active_float_sum exact_mult exact_sum db5 = 3 / 4"
    by (simp add: active_float_sum_def active_float_values_def db5_def widget_def gadget_def
          exact_mult_def exact_sum_def)
  have pg: "totalValue (getDashboardMetrics db5) = Inr 1"
    by (simp add: eval_totalValue db5_def widget_def gadget_def)
  have lite: "totalValue (getDashboardMetrics_sqlite exact_mult exact_sum db5) = Inr 0"
    by (simp add: eval_totalValue db5_def widget_def gadget_def)
  have big: "round_half_away (active_value_sum db6) = 4000000000"
    by (simp add: active_value_sum_def db6_def crate_def sql_mult_def coalesce_def
          round_half_away_def floor_eq_iff)
  have biglite: "totalValue (getDashboardMetrics_sqlite exact_mult exact_sum db6) = Inr 4000000000"
    by (simp add: eval_totalValue db6_def crate_def)
  note th5 = totalValue_cast_of_sum [of db5 exact_mult exact_sum]
  note th6 = totalValue_cast_of_sum [of db6 exact_mult exact_sum]
  from th5 pg s have near: "\<bar>of_int 1 - (3 / 4 :: rat)\<bar> \<le> 1 / 2"
    by metis
  from th5 lite f have tr: "\<bar>of_int 0 - (3 / 4 :: rat)\<bar> < 1"
    by metis
  from th5 p have "totalValue (getDashboardMetrics db5) =
        totalValue (getDashboardMetrics (db5\<lparr>products := [widget] @ []\<rparr>)) \<and>
      totalValue (getDashboardMetrics_sqlite exact_mult exact_sum db5) =
        totalValue (getDashboardMetrics_sqlite exact_mult exact_sum (db5\<lparr>products := [widget] @ []\<rparr>))"
    by blast
  with pg lite have rem: "totalValue (getDashboardMetrics (db5\<lparr>products := [widget] @ []\<rparr>)) = Inr 1"
      "totalValue (getDashboardMetrics_sqlite exact_mult exact_sum (db5\<lparr>products := [widget] @ []\<rparr>)) =
         Inr 0"
    by simp_all
  from th6 have "totalValue (getDashboardMetrics db6) = Inl IntegerOutOfRange \<longleftrightarrow>
      round_half_away (active_value_sum db6) < - 2147483648 \<or>
      2147483647 < round_half_away (active_value_sum db6)"
    by blast
  with big have over: "totalValue (getDashboardMetrics db6) = Inl IntegerOutOfRange"
    by simp
  from p(1) s f pg lite near tr rem over biglite show ?thesis
    by (intro conjI)
qed

text \<open>
  C5 as stated fails: with one active product of stock 3 and unit price 0.25 the sum is
  0.75, and totalValue is 1 on PostgreSQL and 0 on SQLite.
\<close>

theorem totalValue_not_exact:
  "active_value_sum db0 = 3 / 4 \<and>
   totalValue (getDashboardMetrics db0) = Inr 1 \<and>
   totalValue (getDashboardMetrics_sqlite exact_mult exact_sum db0) = Inr 0 \<and>
   (of_int 1 :: rat) \<noteq> 3 / 4 \<and> (of_int 0 :: rat) \<noteq> 3 / 4"
proof -
  have a: "active_value_sum db0 = 3 / 4"
    by (simp add: active_value_sum_def db0_def widget_def sql_mult_def coalesce_def)
  have b: "totalValue (getDashboardMetrics db0) = Inr 1"
    by (simp add: eval_totalValue db0_def widget_def)
  have c: "totalValue (getDashboardMetrics_sqlite exact_mult exact_sum db0) = Inr 0"
    by (simp add: eval_totalValue db0_def widget_def)
  show ?thesis by (simp add: a b c)
qed

text \<open>
  C9. When the zone ids are distinct (id is the primary key of zones), zoneStatus holds
  exactly one row for each zone, with the columns of the zone (a NULL capacity as 0) and
  with itemCount the number of active products whose zoneId is the id of the zone; the
  rows are ordered by name; a zone that no active product references has its row, with
  itemCount 0.
\<close>

theorem zoneStatus_rows:
  assumes "distinct (map z_id (zones d))"
  shows "mset (zoneStatus (getDashboardMetrics d)) = mset (map (expected_row d) (zones d)) \<and>
         mset (map zs_id (zoneStatus (getDashboardMetrics d))) = mset (map z_id (zones d)) \<and>
         sorted (map zs_name (zoneStatus (getDashboardMetrics d))) \<and>
         (\<forall>z \<in> set (zones d). active_in_zone d z = [] \<longrightarrow>
            (\<exists>r \<in> set (zoneStatus (getDashboardMetrics d)).
               zs_id r = z_id z \<and> zs_itemCount r = 0))"
proof -
  let ?out = "zoneStatus (getDashboardMetrics d)"
  have out: "?out = zoneStatus_query d"
    by (simp add: getDashboardMetrics_def)
  have rows: "mset ?out = mset (map (expected_row d) (zones d))"
    unfolding out by (rule zoneStatus_mset [OF assms])
  have "mset (map zs_id ?out) = image_mset zs_id (mset (map (expected_row d) (zones d)))"
    using rows by simp
  then have ids: "mset (map zs_id ?out) = mset (map z_id (zones d))"
    by (simp add: image_mset.compositionality comp_def expected_row_def)
  have srt: "sorted (map zs_name ?out)"
    unfolding out by (simp add: zoneStatus_query_def Let_def)
  have "\<exists>r \<in> set ?out. zs_id r = z_id z \<and> zs_itemCount r = 0"
    if "z \<in> set (zones d)" "active_in_zone d z = []" for z
  proof -
    from rows have "set ?out = set (map (expected_row d) (zones d))"
      by (rule mset_eq_setD)
    with that(1) have "expected_row d z \<in> set ?out"
      by simp
    moreover have "zs_id (expected_row d z) = z_id z" "zs_itemCount (expected_row d z) = 0"
      using that(2) by (simp_all add: expected_row_def)
    ultimately show ?thesis by blast
  qed
  with rows ids srt show ?thesis by blast
qed

theorem zoneStatus_rows_witness:
  "distinct (map z_id (zones db4)) \<and> active_in_zone db4 zoneB = [] \<and>
   zoneStatus (getDashboardMetrics db4) =
     [\<lparr>zs_id = 1, zs_name = ''Aisle'', zs_description = None, zs_capacity = 50,
       zs_createdAt = Some 100, zs_updatedAt = Some 100, zs_itemCount = 1\<rparr>,
      \<lparr>zs_id = 2, zs_name = ''Bay'', zs_description = Some ''cold'', zs_capacity = 0,
       zs_createdAt = Some 100, zs_updatedAt = Some 100, zs_itemCount = 0\<rparr>]"
proof -
  have a: "distinct (map z_id (zones db4))"
    by (simp add: db4_def zoneA_def zoneB_def)
  have b: "active_in_zone db4 zoneB = []"
    by (simp add: active_in_zone_def db4_def widget_def gadget_def gizmo_def zoneB_def)
  have c: "zoneStatus (getDashboardMetrics db4) =
     [\<lparr>zs_id = 1, zs_name = ''Aisle'', zs_description = None, zs_capacity = 50,
       zs_createdAt = Some 100, zs_updatedAt = Some 100, zs_itemCount = 1\<rparr>,
      \<lparr>zs_id = 2, zs_name = ''Bay'', zs_description = Some ''cold'', zs_capacity = 0,
       zs_createdAt = Some 100, zs_updatedAt = Some 100, zs_itemCount = 0\<rparr>]"
    by (simp add: getDashboardMetrics_def zoneStatus_query_def zones_left_join_products_def
          group_row_def db4_def widget_def gadget_def gizmo_def zoneA_def zoneB_def
          sql_where_def sql_and_def sql_eq_def or_zero_def Let_def)
  from zoneStatus_rows [OF a] a b c show ?thesis
    by simp
qed

section \<open>Product listing\<close>

text \<open>
  C8. The search text is placed in a LIKE pattern as it is, so the characters of the text
  that LIKE treats specially are matched as wildcards, not as themselves: the search text
  w_dget lists the product named widget, although the text occurs neither in its name
  nor in its product id nor in its category.
\<close>

theorem search_wildcard_listed:
  "getProducts (Some (search_filter ''w_dget'')) db0 = [product.extend widget \<lparr>zone = None\<rparr>] \<and>
   \<not> contains_ci ''w_dget'' (p_name widget) \<and>
   \<not> contains_ci ''w_dget'' (p_productId widget) \<and>
   \<not> contains_ci ''w_dget'' (p_category widget)"
proof -
  have "getProducts (Some (search_filter ''w_dget'')) db0 = [product.extend widget \<lparr>zone = None\<rparr>]"
    by (simp add: getProducts_def products_left_join_zones_def getProducts_conditions_def
          search_filter_def db0_def widget_def sql_and_all_def sql_and_def sql_or_def
          sql_where_def sql_eq_def ilike_def lower_char_def)
  moreover have "\<not> contains_ci ''w_dget'' (p_name widget)"
      "\<not> contains_ci ''w_dget'' (p_productId widget)"
      "\<not> contains_ci ''w_dget'' (p_category widget)"
    by (simp_all add: contains_ci_def widget_def lower_char_def)
  ultimately show ?thesis by simp
qed

end
